theory Spec2Isabelle
  imports Main "HOL-Library.Code_Target_Nat"
begin

section \<open>The Christian art agent: a shallow embedding of \<open>src/index.ts\<close>\<close>

text \<open>
  The agent class \<open>ChristianArtAgent\<close> keeps one state object per session and drives it
  through a research / image / annotation pipeline. The embedding follows the source
  function by function. What the source obtains from its collaborators (the language
  model behind \<open>ai.run\<close>, the browser behind \<open>puppeteer\<close>, the key-value store
  \<open>ART_CACHE\<close>, the clock, \<open>JSON.parse\<close>) is not computed here: each answer is a field of
  an environment record that the modelled function reads where the source awaits the
  call, so a theorem that quantifies over the environment covers every behaviour of the
  collaborators, failures included.

  A JavaScript string is a sequence of UTF-16 code units. Here it is the byte string of
  its UTF-8 encoding, generalised so that a surrogate code unit that is not half of a
  pair is written as the three bytes of its own code point. Values read from parsed
  model output are strings where the source's interfaces declare strings, or are
  \<open>null\<close>, or are absent.
\<close>

subsection \<open>Strings: template literals, \<open>encodeURIComponent\<close>, the two regular expressions\<close>

text \<open>A thrown value: an \<open>Error\<close> with its message, or something that is not an \<open>Error\<close>.\<close>

datatype exn = JsError string | NonError

text \<open>Decimal printing of a non-negative number inside a template literal.\<close>

definition digit_char :: "nat \<Rightarrow> char" where
  "digit_char d = char_of (48 + d)"

fun show_nat :: "nat \<Rightarrow> string" where
  "show_nat n = (if n < 10 then [digit_char n] else show_nat (n div 10) @ [digit_char (n mod 10)])"

declare show_nat.simps [simp del]

text \<open>A value that the source treats as a string but that may be \<open>undefined\<close> or \<open>null\<close>,
  and what it prints as inside a template literal or as the argument of
  \<open>encodeURIComponent\<close>.\<close>

datatype field = Undefined | Null | Str string

definition to_str :: "field \<Rightarrow> string" where
  "to_str v = (case v of Undefined \<Rightarrow> ''undefined'' | Null \<Rightarrow> ''null'' | Str s \<Rightarrow> s)"

text \<open>
  A surrogate that is not half of a pair: in the byte string, the byte \<open>ED\<close> followed by
  a byte from \<open>A0\<close> to \<open>BF\<close> (a pair is one code point of four bytes, and the other code
  points that start with \<open>ED\<close> go on with a byte below \<open>A0\<close>).
\<close>

fun lone_surrogate :: "string \<Rightarrow> bool" where
  "lone_surrogate (a # b # s) =
     (a = CHR 0xED \<and> (0xA0 :: nat) \<le> of_char b \<and> of_char b \<le> (0xBF :: nat)
      \<or> lone_surrogate (b # s))"
| "lone_surrogate [a] = False"
| "lone_surrogate [] = False"

text \<open>
  \<open>encodeURIComponent\<close> throws a \<open>URIError\<close> with the message \<open>URI malformed\<close> when its
  argument holds a lone surrogate; otherwise every byte outside the unreserved set
  \<open>A-Z a-z 0-9 - _ . ! ~ * ' ( )\<close> becomes \<open>%XX\<close> with upper-case hexadecimal digits.
\<close>

definition unreserved :: "char \<Rightarrow> bool" where
  "unreserved c =
     (c \<in> set ''ABCDEFGHIJKLMNOPQRSTUVWXYZabcdefghijklmnopqrstuvwxyz0123456789-_.!~*()''
      \<or> c = CHR 0x27)"

definition hex_digit :: "nat \<Rightarrow> char" where
  "hex_digit d = (if d < 10 then char_of (48 + d) else char_of (55 + d))"

definition percent :: "char \<Rightarrow> string" where
  "percent c = [CHR ''%'', hex_digit (of_char c div 16), hex_digit (of_char c mod 16)]"

definition uri_malformed :: exn where
  "uri_malformed = JsError ''URI malformed''"

definition encodeURIComponent :: "string \<Rightarrow> exn + string" where
  "encodeURIComponent s =
     (if lone_surrogate s then Inl uri_malformed
      else Inr (concat (map (\<lambda>c. if unreserved c then [c] else percent c) s)))"

text \<open>
  The characters of the class \<open>\s\<close>, each as its bytes: tab, line feed, vertical tab, form
  feed, carriage return, space, U+00A0, U+1680, U+2000 to U+200A, U+2028, U+2029, U+202F,
  U+205F, U+3000 and U+FEFF. \<open>skip_spaces\<close> is \<open>\s*\<close> at the head of a text: it drops such
  characters as long as there are any.
\<close>

definition spaces :: "string list" where
  "spaces =
     [[CHR 0x09], [CHR 0x0A], [CHR 0x0B], [CHR 0x0C], [CHR 0x0D], [CHR 0x20],
      [CHR 0xC2, CHR 0xA0],
      [CHR 0xE1, CHR 0x9A, CHR 0x80],
      [CHR 0xE2, CHR 0x80, CHR 0x80], [CHR 0xE2, CHR 0x80, CHR 0x81],
      [CHR 0xE2, CHR 0x80, CHR 0x82], [CHR 0xE2, CHR 0x80, CHR 0x83],
      [CHR 0xE2, CHR 0x80, CHR 0x84], [CHR 0xE2, CHR 0x80, CHR 0x85],
      [CHR 0xE2, CHR 0x80, CHR 0x86], [CHR 0xE2, CHR 0x80, CHR 0x87],
      [CHR 0xE2, CHR 0x80, CHR 0x88], [CHR 0xE2, CHR 0x80, CHR 0x89],
      [CHR 0xE2, CHR 0x80, CHR 0x8A],
      [CHR 0xE2, CHR 0x80, CHR 0xA8], [CHR 0xE2, CHR 0x80, CHR 0xA9],
      [CHR 0xE2, CHR 0x80, CHR 0xAF],
      [CHR 0xE2, CHR 0x81, CHR 0x9F],
      [CHR 0xE3, CHR 0x80, CHR 0x80],
      [CHR 0xEF, CHR 0xBB, CHR 0xBF]]"

text \<open>The number of bytes of the white space character a text starts with, or 0.\<close>

definition space_length :: "string \<Rightarrow> nat" where
  "space_length s =
     (case find (\<lambda>t. take (length t) s = t) spaces of None \<Rightarrow> 0 | Some t \<Rightarrow> length t)"

fun skip_spaces :: "string \<Rightarrow> string" where
  "skip_spaces [] = []"
| "skip_spaces (c # s) =
     (case space_length (c # s) of
        0 \<Rightarrow> c # s
      | Suc n \<Rightarrow> skip_spaces (drop n s))"

text \<open>
  \<^verbatim>\<open>response.response.match(/\[\s*\{.*\}\s*\]/s)\<close> in \<open>researchArtworks\<close>. The match is the
  leftmost one; \<open>.*\<close> (with the flag \<open>s\<close> it also crosses line ends) is greedy, so the
  match ends at the last place where a closing brace, optional white space and a closing
  bracket follow each other. \<open>after_close\<close> finds that place and returns what follows the
  bracket; \<open>array_here\<close> is the match that starts at the head of the text; \<open>match_array\<close>
  tries the start positions from the left.
\<close>

fun after_close :: "string \<Rightarrow> string option" where
  "after_close [] = None"
| "after_close (c # s) =
     (case after_close s of
        Some rest \<Rightarrow> Some rest
      | None \<Rightarrow>
          if c = CHR ''}''
          then (case skip_spaces s of
                  [] \<Rightarrow> None
                | d # rest \<Rightarrow> if d = CHR '']'' then Some rest else None)
          else None)"

definition array_here :: "string \<Rightarrow> string option" where
  "array_here s =
     (case s of
        [] \<Rightarrow> None
      | c # r \<Rightarrow>
          if c \<noteq> CHR ''['' then None
          else (case skip_spaces r of
                  [] \<Rightarrow> None
                | d # body \<Rightarrow>
                    if d \<noteq> CHR ''{'' then None
                    else (case after_close body of
                            None \<Rightarrow> None
                          | Some rest \<Rightarrow> Some (take (length s - length rest) s))))"

fun match_array :: "string \<Rightarrow> string option" where
  "match_array [] = None"
| "match_array (c # r) =
     (case array_here (c # r) of Some m \<Rightarrow> Some m | None \<Rightarrow> match_array r)"

text \<open>
  \<^verbatim>\<open>response.response.match(/\{[\s\S]*\}/)\<close> in \<open>annotateArtworks\<close>: from the first opening
  brace to the last closing brace after it.
\<close>

definition match_object :: "string \<Rightarrow> string option" where
  "match_object s =
     (case dropWhile (\<lambda>c. c \<noteq> CHR ''{'') s of
        [] \<Rightarrow> None
      | b # body \<Rightarrow>
          (case dropWhile (\<lambda>c. c \<noteq> CHR ''}'') (rev body) of
             [] \<Rightarrow> None
           | t \<Rightarrow> Some (b # rev t)))"

subsection \<open>The data model\<close>

datatype stage = Idle | Analyzing | Researching | Fetching | Annotating | Complete | Error

text \<open>\<open>interface ArtworkInfo\<close>. The field \<open>id\<close> is \<open>id'\<close> here. \<open>title\<close> and \<open>artist\<close> are
  copied from the parsed element without a default, so they may be \<open>undefined\<close> or
  \<open>null\<close>.\<close>

record ArtworkInfo =
  id' :: string
  title :: field
  artist :: field
  year :: int
  period :: string
  location :: string
  relevanceScore :: "int option"

record ArtworkWithImage = ArtworkInfo +
  imageUrl :: string

record Annotations =
  historicalContext :: string
  artisticStyle :: string
  biblicalNarrative :: string
  interestingDetails :: "string list"
  uniqueInterpretation :: string

record AnnotatedArtwork = ArtworkWithImage +
  annotations :: Annotations

text \<open>\<open>interface ArtAgentState\<close>: every field is optional. A session that has no state
  yet reads as the object without fields.\<close>

record ArtAgentState =
  currentQuery :: field
  searchResults :: "ArtworkInfo list option"
  selectedWorks :: "AnnotatedArtwork list option"
  processingStage :: "stage option"
  error :: "string option"
  lastUpdated :: "nat option"

text \<open>An element of the array that \<open>JSON.parse\<close> returns in \<open>researchArtworks\<close>
  (\<open>artwork: any\<close>), and the object it returns in \<open>annotateArtworks\<close>. An element that is
  not an object (a number, a string) reads as one without fields. A title or artist that
  is not a string is only ever printed, so it is kept as the text it prints as. For a
  field that the source reads with \<open>||\<close>, \<open>None\<close> stands for absent and for \<open>null\<close> alike.\<close>

record parsed_artwork =
  raw_title :: field
  raw_artist :: field
  raw_year :: "int option"
  raw_period :: "string option"
  raw_location :: "string option"

record parsed_annotations =
  raw_historicalContext :: "string option"
  raw_artisticStyle :: "string option"
  raw_biblicalNarrative :: "string option"
  raw_interestingDetails :: "string list option"
  raw_uniqueInterpretation :: "string option"

text \<open>The operator \<open>||\<close> on such a string and on such a number: \<open>undefined\<close>, \<open>null\<close>,
  the empty string and \<open>0\<close> are falsy.\<close>

definition str_or :: "string option \<Rightarrow> string \<Rightarrow> string" where
  "str_or v d = (case v of None \<Rightarrow> d | Some s \<Rightarrow> if s = [] then d else s)"

definition num_or :: "int option \<Rightarrow> int \<Rightarrow> int" where
  "num_or v d = (case v of None \<Rightarrow> d | Some n \<Rightarrow> if n = 0 then d else n)"

subsection \<open>What the collaborators answer\<close>

text \<open>An \<open>img\<close> element of the search page, as the callback of \<open>page.evaluate\<close> reads it.\<close>

record img =
  src :: string
  width :: nat
  height :: nat

text \<open>One pass through the body of the loop in \<open>fetchArtworkImages\<close>: which of the awaited
  browser calls resolve, and the \<open>img\<close> elements of the page that was loaded.\<close>

record page_visit =
  newPage_ok :: bool
  goto_ok :: bool
  waitForSelector_ok :: bool
  evaluate_ok :: bool
  document_imgs :: "img list"
  close_ok :: bool

text \<open>
  Everything one execution of \<open>processArtQuery\<close> obtains from outside. The bindings \<open>AI\<close>
  and \<open>BROWSER\<close> are present, as \<open>wrangler.jsonc\<close> declares them, so \<open>new Ai(this.env.AI)\<close>
  returns.
  \<^item> \<open>ai_research\<close>: the text \<open>response.response\<close> of the research completion, \<open>None\<close> when
    \<open>ai.run\<close> rejects or the reply carries no text (both end in the same \<open>catch\<close>);
  \<^item> \<open>JSON_parse_artworks\<close>: \<open>JSON.parse\<close> on the matched text, \<open>None\<close> when it throws. The
    matched text starts with a bracket, white space and a brace, so what \<open>JSON.parse\<close>
    returns for it is an array with a first element: the answer is that element and the
    list of the others. An element \<open>None\<close> is a \<open>null\<close>, on which reading \<open>.title\<close> throws;
  \<^item> \<open>Date_now\<close>: the value of \<open>Date.now()\<close> in the callback of \<open>map\<close> at that index;
  \<^item> \<open>launch\<close>, \<open>browser_close\<close>: what \<open>puppeteer.launch\<close> and \<open>browser.close\<close> reject with,
    \<open>None\<close> when they resolve;
  \<^item> \<open>visits\<close>: the browser's behaviour in the loop pass with that number;
  \<^item> \<open>ai_annotate\<close>, \<open>JSON_parse_annotations\<close>: the same for the annotation of the artwork
    with that number;
  \<^item> \<open>cache_put_ok\<close>: whether \<open>ART_CACHE.put\<close> resolves;
  \<^item> \<open>new_Date\<close>: the clock when the state takes that stage (\<open>lastUpdated\<close> holds the
    time stamp rather than its ISO text).
\<close>

record run_env =
  ai_research :: "string option"
  JSON_parse_artworks :: "string \<Rightarrow> (parsed_artwork option \<times> parsed_artwork option list) option"
  Date_now :: "nat \<Rightarrow> nat"
  launch :: "exn option"
  visits :: "nat \<Rightarrow> page_visit"
  browser_close :: "exn option"
  ai_annotate :: "nat \<Rightarrow> string option"
  JSON_parse_annotations :: "string \<Rightarrow> parsed_annotations option"
  cache_put_ok :: bool
  new_Date :: "stage \<Rightarrow> nat"

subsection \<open>The agent and its surroundings\<close>

text \<open>Messages the server writes to a socket (the fields of \<open>data\<close>; \<open>JSON.stringify\<close>
  leaves out the absent ones): \<open>state\<close> with \<open>processingStage\<close>, \<open>query\<close>, \<open>lastUpdated\<close>,
  \<open>error\<close>; \<open>results\<close> with \<open>query\<close>, \<open>artworks\<close>; \<open>error\<close> with \<open>message\<close>.\<close>

datatype message =
    State_msg "stage option" field "nat option" "string option"
  | Results_msg field "AnnotatedArtwork list"
  | Error_msg string

text \<open>
  \<open>state\<close> is \<open>this.state\<close>; \<open>schedules\<close> holds the payloads of the \<open>processArtQuery\<close> tasks
  that \<open>this.schedule\<close> has stored and that have not run yet; \<open>ART_CACHE\<close> is the binding
  \<open>this.env.ART_CACHE\<close> (\<open>None\<close> when it is not bound), each stored document
  \<open>{artworks: ...}\<close> kept as the list it holds; \<open>sockets\<close> is \<open>this.ctx.getWebSockets()\<close> and
  \<open>sent\<close> what has been written to them; \<open>updates\<close> lists the states that
  \<open>onStateUpdate\<close> has been called with; \<open>ai_runs\<close> and \<open>launches\<close> count the calls of
  \<open>ai.run\<close> and \<open>puppeteer.launch\<close>.
\<close>

record world =
  state :: ArtAgentState
  schedules :: "field list"
  ART_CACHE :: "(string \<rightharpoonup> AnnotatedArtwork list) option"
  sockets :: "nat list"
  sent :: "(nat \<times> message) list"
  updates :: "ArtAgentState list"
  ai_runs :: nat
  launches :: nat

text \<open>\<open>onStateUpdate\<close>: every socket gets a \<open>state\<close> message and, when the new state is
  complete and has works, a \<open>results\<close> message.\<close>

definition notify :: "ArtAgentState \<Rightarrow> nat \<Rightarrow> (nat \<times> message) list" where
  "notify s connection =
     (connection, State_msg (processingStage s) Undefined (lastUpdated s) (error s)) #
     (case selectedWorks s of
        Some works \<Rightarrow>
          if processingStage s = Some Complete
          then [(connection, Results_msg (currentQuery s) works)] else []
      | None \<Rightarrow> [])"

definition onStateUpdate :: "ArtAgentState \<Rightarrow> world \<Rightarrow> world" where
  "onStateUpdate s w =
     w\<lparr>updates := updates w @ [s], sent := sent w @ concat (map (notify s) (sockets w))\<rparr>"

text \<open>\<open>this.setState\<close> of the base class \<open>Agent\<close>: the argument becomes the state as a whole
  (a caller that keeps fields spreads \<open>this.state\<close> into it), then \<open>onStateUpdate\<close> runs.\<close>

definition setState :: "ArtAgentState \<Rightarrow> world \<Rightarrow> world" where
  "setState s w = onStateUpdate s (w\<lparr>state := s\<rparr>)"

subsection \<open>\<open>researchArtworks\<close>\<close>

definition research_failed :: exn where
  "research_failed = JsError ''Failed to research artworks for the biblical narrative''"

definition artwork_id :: "nat \<Rightarrow> nat \<Rightarrow> string" where
  "artwork_id now index = ''artwork-'' @ show_nat now @ ''-'' @ show_nat index"

definition with_id :: "nat \<Rightarrow> nat \<Rightarrow> parsed_artwork \<Rightarrow> ArtworkInfo" where
  "with_id now index artwork =
     \<lparr>id' = artwork_id now index,
      title = raw_title artwork,
      artist = raw_artist artwork,
      year = num_or (raw_year artwork) 0,
      period = str_or (raw_period artwork) ''Unknown'',
      location = str_or (raw_location artwork) ''Unknown'',
      relevanceScore = None\<rparr>"

text \<open>\<open>artworks.map((artwork, index) => ...)\<close>; \<open>None\<close> when the callback throws.\<close>

fun map_artworks :: "(nat \<Rightarrow> nat) \<Rightarrow> nat \<Rightarrow> parsed_artwork option list \<Rightarrow> ArtworkInfo list option" where
  "map_artworks now index [] = Some []"
| "map_artworks now index (None # rest) = None"
| "map_artworks now index (Some artwork # rest) =
     (case map_artworks now (Suc index) rest of
        None \<Rightarrow> None
      | Some mapped \<Rightarrow> Some (with_id (now index) index artwork # mapped))"

text \<open>The body of the \<open>try\<close> block, after \<open>ai.run\<close> has been awaited.\<close>

definition parse_artworks :: "run_env \<Rightarrow> ArtworkInfo list option" where
  "parse_artworks env =
     (case ai_research env of
        None \<Rightarrow> None
      | Some response \<Rightarrow>
          (case match_array response of
             None \<Rightarrow> None
           | Some artworksJson \<Rightarrow>
               (case JSON_parse_artworks env artworksJson of
                  None \<Rightarrow> None
                | Some (first, others) \<Rightarrow> map_artworks (Date_now env) 0 (first # others))))"

definition researchArtworks ::
  "run_env \<Rightarrow> field \<Rightarrow> world \<Rightarrow> (exn + ArtworkInfo list) \<times> world" where
  "researchArtworks env narrative w =
     (let w1 = setState ((state w)\<lparr>processingStage := Some Researching,
                                  lastUpdated := Some (new_Date env Researching)\<rparr>) w;
          w2 = w1\<lparr>ai_runs := Suc (ai_runs w1)\<rparr>
      in case parse_artworks env of
           None \<Rightarrow> (Inl research_failed, w2)
         | Some artworks \<Rightarrow> (Inr artworks, w2))"

subsection \<open>\<open>fetchArtworkImages\<close>\<close>

text \<open>The callback of \<open>page.evaluate\<close>: with exactly one image that passes the filter,
  \<open>imgElements[1]\<close> is \<open>undefined\<close> and reading its \<open>src\<close> throws.\<close>

definition first_result :: "img list \<Rightarrow> exn + string option" where
  "first_result imgs =
     (let imgElements =
            filter (\<lambda>i. src i \<noteq> [] \<and> take 4 (src i) = ''http'' \<and> 100 < width i \<and> 100 < height i) imgs
      in if 0 < length imgElements
         then (if 1 < length imgElements then Inr (Some (src (imgElements ! 1)))
               else Inl (JsError ''TypeError''))
         else Inr None)"

text \<open>\<open>{...artwork, imageUrl}\<close>\<close>

definition with_image :: "ArtworkInfo \<Rightarrow> string \<Rightarrow> ArtworkWithImage" where
  "with_image artwork url = ArtworkInfo.extend artwork (ArtworkWithImage.fields url)"

text \<open>The search phrase, the address of the search page and the placeholder address. The
  last two are built with \<open>encodeURIComponent\<close>, which may throw.\<close>

definition searchQuery :: "ArtworkInfo \<Rightarrow> string" where
  "searchQuery artwork =
     to_str (artist artwork) @ '' '' @ to_str (title artwork) @ '' painting artwork''"

definition search_page :: "ArtworkInfo \<Rightarrow> exn + string" where
  "search_page artwork =
     (case encodeURIComponent (searchQuery artwork) of
        Inl e \<Rightarrow> Inl e
      | Inr q \<Rightarrow> Inr (''https://www.google.com/search?q='' @ q @ ''&tbm=isch''))"

definition placeholder :: "ArtworkInfo \<Rightarrow> exn + string" where
  "placeholder artwork =
     (case encodeURIComponent (to_str (title artwork)) of
        Inl e \<Rightarrow> Inl e
      | Inr t \<Rightarrow> Inr (''https://placekitten.com/600/400?text='' @ t))"

text \<open>\<open>artworksWithImages.push({...artwork, imageUrl: `https://placekitten.com/...`})\<close>, and
  the statement \<open>if (imageUrl) ... else ...\<close> of the \<open>try\<close> block.\<close>

definition push_placeholder ::
  "ArtworkInfo \<Rightarrow> ArtworkWithImage list \<Rightarrow> exn + ArtworkWithImage list" where
  "push_placeholder artwork artworksWithImages =
     (case placeholder artwork of
        Inl e \<Rightarrow> Inl e
      | Inr url \<Rightarrow> Inr (artworksWithImages @ [with_image artwork url]))"

definition push_found ::
  "string option \<Rightarrow> ArtworkInfo \<Rightarrow> ArtworkWithImage list \<Rightarrow> exn + ArtworkWithImage list" where
  "push_found found artwork artworksWithImages =
     (case found of
        Some url \<Rightarrow>
          if url \<noteq> [] then Inr (artworksWithImages @ [with_image artwork url])
          else push_placeholder artwork artworksWithImages
      | None \<Rightarrow> push_placeholder artwork artworksWithImages)"

text \<open>How the \<open>try\<close> block of a loop pass ends: it runs to its end, or one of its statements
  throws; either way with the list as the block leaves it. The block pushes and then
  closes the page.\<close>

datatype attempt = Completed "ArtworkWithImage list" | Threw "ArtworkWithImage list"

definition try_block :: "page_visit \<Rightarrow> ArtworkInfo \<Rightarrow> ArtworkWithImage list \<Rightarrow> attempt" where
  "try_block v artwork artworksWithImages =
     (if \<not> newPage_ok v then Threw artworksWithImages
      else (case search_page artwork of
              Inl e \<Rightarrow> Threw artworksWithImages
            | Inr page \<Rightarrow>
                if \<not> goto_ok v \<or> \<not> waitForSelector_ok v \<or> \<not> evaluate_ok v
                then Threw artworksWithImages
                else (case first_result (document_imgs v) of
                        Inl e \<Rightarrow> Threw artworksWithImages
                      | Inr found \<Rightarrow>
                          (case push_found found artwork artworksWithImages of
                             Inl e \<Rightarrow> Threw artworksWithImages
                           | Inr pushed \<Rightarrow>
                               if close_ok v then Completed pushed else Threw pushed))))"

text \<open>The body of the loop: when the \<open>try\<close> block throws, the \<open>catch\<close> block pushes the
  artwork with the placeholder; what the \<open>catch\<close> block throws leaves the loop.\<close>

definition fetch_one ::
  "page_visit \<Rightarrow> ArtworkInfo \<Rightarrow> ArtworkWithImage list \<Rightarrow> exn + ArtworkWithImage list" where
  "fetch_one v artwork artworksWithImages =
     (case try_block v artwork artworksWithImages of
        Completed pushed \<Rightarrow> Inr pushed
      | Threw so_far \<Rightarrow> push_placeholder artwork so_far)"

fun fetch_loop ::
  "(nat \<Rightarrow> page_visit) \<Rightarrow> nat \<Rightarrow> ArtworkInfo list \<Rightarrow> ArtworkWithImage list \<Rightarrow>
     exn + ArtworkWithImage list" where
  "fetch_loop vs n [] artworksWithImages = Inr artworksWithImages"
| "fetch_loop vs n (artwork # rest) artworksWithImages =
     (case fetch_one (vs n) artwork artworksWithImages of
        Inl e \<Rightarrow> Inl e
      | Inr pushed \<Rightarrow> fetch_loop vs (Suc n) rest pushed)"

text \<open>\<open>puppeteer.launch\<close> is awaited before the \<open>try\<close>; \<open>browser.close\<close> in its \<open>finally\<close>,
  so what it rejects with replaces what the loop has thrown.\<close>

definition fetchArtworkImages ::
  "run_env \<Rightarrow> ArtworkInfo list \<Rightarrow> world \<Rightarrow> (exn + ArtworkWithImage list) \<times> world" where
  "fetchArtworkImages env artworks w =
     (let w1 = setState ((state w)\<lparr>processingStage := Some Fetching,
                                  lastUpdated := Some (new_Date env Fetching)\<rparr>) w;
          w2 = w1\<lparr>launches := Suc (launches w1)\<rparr>
      in case launch env of
           Some e \<Rightarrow> (Inl e, w2)
         | None \<Rightarrow>
             (let looped = fetch_loop (visits env) 0 artworks []
              in case browser_close env of
                   Some e \<Rightarrow> (Inl e, w2)
                 | None \<Rightarrow> (looped, w2)))"

subsection \<open>\<open>annotateArtworks\<close>\<close>

definition could_not :: string where
  "could_not = ''Information could not be generated at this time.''"

definition default_annotations :: Annotations where
  "default_annotations =
     \<lparr>historicalContext = could_not,
      artisticStyle = could_not,
      biblicalNarrative = could_not,
      interestingDetails = [could_not],
      uniqueInterpretation = could_not\<rparr>"

definition read_annotations :: "parsed_annotations \<Rightarrow> Annotations" where
  "read_annotations a =
     \<lparr>historicalContext = str_or (raw_historicalContext a) ''Historical context information unavailable'',
      artisticStyle = str_or (raw_artisticStyle a) ''Artistic style information unavailable'',
      biblicalNarrative = str_or (raw_biblicalNarrative a) ''Biblical narrative interpretation unavailable'',
      interestingDetails =
        (case raw_interestingDetails a of None \<Rightarrow> [''Detail information unavailable''] | Some ds \<Rightarrow> ds),
      uniqueInterpretation =
        str_or (raw_uniqueInterpretation a) ''Unique interpretation information unavailable''\<rparr>"

text \<open>\<open>{...artwork, annotations: ...}\<close>\<close>

definition with_annotations :: "ArtworkWithImage \<Rightarrow> Annotations \<Rightarrow> AnnotatedArtwork" where
  "with_annotations artwork a = ArtworkWithImage.extend artwork (AnnotatedArtwork.fields a)"

text \<open>The \<open>try\<close> block of the loop body up to \<open>JSON.parse\<close>: \<open>None\<close> when something in it throws.\<close>

definition extract_annotations :: "run_env \<Rightarrow> nat \<Rightarrow> parsed_annotations option" where
  "extract_annotations env n =
     (case ai_annotate env n of
        None \<Rightarrow> None
      | Some response \<Rightarrow>
          (case match_object response of
             None \<Rightarrow> None
           | Some annotationsJson \<Rightarrow> JSON_parse_annotations env annotationsJson))"

definition annotate_one :: "run_env \<Rightarrow> nat \<Rightarrow> ArtworkWithImage \<Rightarrow> AnnotatedArtwork list \<Rightarrow> AnnotatedArtwork list" where
  "annotate_one env n artwork annotatedWorks =
     (case extract_annotations env n of
        Some a \<Rightarrow> annotatedWorks @ [with_annotations artwork (read_annotations a)]
      | None \<Rightarrow> annotatedWorks @ [with_annotations artwork default_annotations])"

fun annotate_loop ::
  "run_env \<Rightarrow> nat \<Rightarrow> ArtworkWithImage list \<Rightarrow> AnnotatedArtwork list \<Rightarrow> AnnotatedArtwork list" where
  "annotate_loop env n [] annotatedWorks = annotatedWorks"
| "annotate_loop env n (artwork # rest) annotatedWorks =
     annotate_loop env (Suc n) rest (annotate_one env n artwork annotatedWorks)"

definition annotateArtworks ::
  "run_env \<Rightarrow> ArtworkWithImage list \<Rightarrow> field \<Rightarrow> world \<Rightarrow> AnnotatedArtwork list \<times> world" where
  "annotateArtworks env artworks narrative w =
     (let w1 = setState ((state w)\<lparr>processingStage := Some Annotating,
                                  lastUpdated := Some (new_Date env Annotating)\<rparr>) w
      in (annotate_loop env 0 artworks [], w1\<lparr>ai_runs := ai_runs w1 + length artworks\<rparr>))"

subsection \<open>\<open>processArtQuery\<close>\<close>

definition cache_key :: "field \<Rightarrow> string" where
  "cache_key query = ''query:'' @ to_str query"

definition message_of :: "exn \<Rightarrow> string" where
  "message_of e = (case e of JsError m \<Rightarrow> m | NonError \<Rightarrow> ''Unknown error occurred'')"

text \<open>The \<open>catch\<close> block.\<close>

definition failed :: "run_env \<Rightarrow> exn \<Rightarrow> world \<Rightarrow> world" where
  "failed env e w =
     setState ((state w)\<lparr>processingStage := Some Error,
                        error := Some (message_of e),
                        lastUpdated := Some (new_Date env Error)\<rparr>) w"

text \<open>Step 5 of the \<open>try\<close> block; a rejected \<open>put\<close> is logged and nothing else.\<close>

definition cache_results :: "run_env \<Rightarrow> field \<Rightarrow> AnnotatedArtwork list \<Rightarrow> world \<Rightarrow> world" where
  "cache_results env query annotatedArtworks w =
     (case ART_CACHE w of
        None \<Rightarrow> w
      | Some kv \<Rightarrow>
          if 0 < length annotatedArtworks \<and> cache_put_ok env
          then w\<lparr>ART_CACHE := Some (kv(cache_key query \<mapsto> annotatedArtworks))\<rparr>
          else w)"

definition processArtQuery :: "run_env \<Rightarrow> field \<Rightarrow> world \<Rightarrow> world" where
  "processArtQuery env query w =
     (case researchArtworks env query w of
        (Inl e, w1) \<Rightarrow> failed env e w1
      | (Inr artworksList, w1) \<Rightarrow>
          (case fetchArtworkImages env artworksList w1 of
             (Inl e, w2) \<Rightarrow> failed env e w2
           | (Inr artworksWithImages, w2) \<Rightarrow>
               (case annotateArtworks env artworksWithImages query w2 of
                  (annotatedArtworks, w3) \<Rightarrow>
                    cache_results env query annotatedArtworks
                      (setState ((state w3)\<lparr>selectedWorks := Some annotatedArtworks,
                                           processingStage := Some Complete,
                                           lastUpdated := Some (new_Date env Complete)\<rparr>) w3))))"

subsection \<open>\<open>onRequest\<close>\<close>

text \<open>A request: the path of its URL, its method (\<open>method'\<close> here), and what \<open>request.json()\<close> gives
  (\<open>Malformed\<close> when it rejects or gives \<open>null\<close>, otherwise the field \<open>query\<close> of the body:
  \<open>None\<close> when it is absent, \<open>null\<close>, \<open>false\<close> or zero, and otherwise the text it prints
  as). The handler also reads the clock and the cache; \<open>cache_get_ok\<close> tells whether
  \<open>ART_CACHE.get\<close> resolves.\<close>

datatype body = Malformed | Json "string option"

record request =
  pathname :: string
  method' :: string
  body :: body

record request_env =
  cache_get_ok :: bool
  clock :: nat

text \<open>The JSON documents of the responses (\<open>queryId\<close>, a random UUID, is left out), and
  the response with its status.\<close>

datatype reply =
    No_query_provided
  | Retrieved_from_cache
  | Processing_started
  | Failed_to_process_query
  | Status stage "nat option" field "string option"
  | Results_not_ready stage "string option"
  | Results field "AnnotatedArtwork list option"
  | Api_info

record response =
  status :: nat
  json :: reply

definition endsWith :: "string \<Rightarrow> string \<Rightarrow> bool" where
  "endsWith s t = (length t \<le> length s \<and> drop (length s - length t) s = t)"

text \<open>\<open>this.state.processingStage || 'idle'\<close>\<close>

definition stage_or_idle :: "ArtAgentState \<Rightarrow> stage" where
  "stage_or_idle s = (case processingStage s of None \<Rightarrow> Idle | Some st \<Rightarrow> st)"

text \<open>\<open>this.schedule(0, 'processArtQuery', { query })\<close>\<close>

definition schedule :: "field \<Rightarrow> world \<Rightarrow> world" where
  "schedule query w = w\<lparr>schedules := schedules w @ [query]\<rparr>"

text \<open>The cache check of the query branch: the artworks of the stored document, \<open>None\<close>
  when the binding is absent, nothing is stored under the key, or the read fails.\<close>

definition cached :: "request_env \<Rightarrow> string \<Rightarrow> world \<Rightarrow> AnnotatedArtwork list option" where
  "cached env query w =
     (case ART_CACHE w of
        None \<Rightarrow> None
      | Some kv \<Rightarrow> if cache_get_ok env then kv (cache_key (Str query)) else None)"

definition submit :: "request_env \<Rightarrow> string \<Rightarrow> world \<Rightarrow> response \<times> world" where
  "submit env query w =
     (case cached env query w of
        Some artworks \<Rightarrow>
          (\<lparr>status = 200, json = Retrieved_from_cache\<rparr>,
           setState \<lparr>currentQuery = Str query, searchResults = None,
                     selectedWorks = Some artworks, processingStage = Some Complete,
                     error = None, lastUpdated = Some (clock env)\<rparr> w)
      | None \<Rightarrow>
          (\<lparr>status = 200, json = Processing_started\<rparr>,
           schedule (Str query)
             (setState \<lparr>currentQuery = Str query, searchResults = None,
                        selectedWorks = None, processingStage = Some Analyzing,
                        error = None, lastUpdated = Some (clock env)\<rparr> w)))"

definition onRequest :: "request_env \<Rightarrow> request \<Rightarrow> world \<Rightarrow> response \<times> world" where
  "onRequest env req w =
     (if endsWith (pathname req) ''/query'' \<and> method' req = ''POST''
      then (case body req of
              Malformed \<Rightarrow> (\<lparr>status = 500, json = Failed_to_process_query\<rparr>, w)
            | Json None \<Rightarrow> (\<lparr>status = 400, json = No_query_provided\<rparr>, w)
            | Json (Some query) \<Rightarrow>
                if query = [] then (\<lparr>status = 400, json = No_query_provided\<rparr>, w)
                else submit env query w)
      else if endsWith (pathname req) ''/status''
      then (\<lparr>status = 200,
             json = Status (stage_or_idle (state w)) (lastUpdated (state w))
                      (currentQuery (state w)) (error (state w))\<rparr>, w)
      else if endsWith (pathname req) ''/results''
      then (if processingStage (state w) \<noteq> Some Complete
            then (\<lparr>status = 200,
                   json = Results_not_ready (stage_or_idle (state w)) (error (state w))\<rparr>, w)
            else (\<lparr>status = 200,
                   json = Results (currentQuery (state w)) (selectedWorks (state w))\<rparr>, w))
      else (\<lparr>status = 200, json = Api_info\<rparr>, w))"

subsection \<open>\<open>onConnect\<close> and \<open>onMessage\<close>\<close>

definition send :: "nat \<Rightarrow> message \<Rightarrow> world \<Rightarrow> world" where
  "send connection m w = w\<lparr>sent := sent w @ [(connection, m)]\<rparr>"

text \<open>What \<open>onConnect\<close> writes to the new connection.\<close>

definition greeting :: "ArtAgentState \<Rightarrow> message list" where
  "greeting s =
     State_msg (Some (stage_or_idle s)) (currentQuery s) None (error s) #
     (case selectedWorks s of
        Some works \<Rightarrow>
          if processingStage s = Some Complete then [Results_msg (currentQuery s) works] else []
      | None \<Rightarrow> [])"

definition onConnect :: "nat \<Rightarrow> world \<Rightarrow> world" where
  "onConnect connection w =
     w\<lparr>sockets := sockets w @ [connection],
       sent := sent w @ map (Pair connection) (greeting (state w))\<rparr>"

text \<open>A message from a client: \<open>Garbled\<close> when \<open>JSON.parse\<close> throws or gives \<open>null\<close>,
  \<open>Query\<close> with the field \<open>query\<close> when \<open>type\<close> is \<open>'query'\<close>, \<open>Other\<close> otherwise.\<close>

datatype ws_message = Garbled | Query field | Other

definition onMessage :: "nat \<Rightarrow> nat \<Rightarrow> ws_message \<Rightarrow> world \<Rightarrow> world" where
  "onMessage connection time m w =
     (case m of
        Garbled \<Rightarrow> send connection (Error_msg ''Failed to process message'') w
      | Other \<Rightarrow> w
      | Query query \<Rightarrow>
          schedule query
            (send connection (State_msg (Some Analyzing) query None None)
               (setState \<lparr>currentQuery = query, searchResults = None,
                          selectedWorks = None, processingStage = Some Analyzing,
                          error = None, lastUpdated = Some time\<rparr> w)))"

subsection \<open>The life of a session\<close>

text \<open>
  What can happen to a session: a request, a socket that connects, sends a message or
  closes, the alarm that runs the oldest stored task, and a cache entry that reaches the
  end of its time to live. A task runs to its end before the next event is handled.
\<close>

datatype event =
    Http request_env request
  | Connect nat
  | Message nat nat ws_message
  | Close nat
  | Alarm run_env
  | Expire string

fun step :: "event \<Rightarrow> world \<Rightarrow> world" where
  "step (Http env req) w = snd (onRequest env req w)"
| "step (Connect c) w = onConnect c w"
| "step (Message c t m) w = onMessage c t m w"
| "step (Close c) w = w\<lparr>sockets := removeAll c (sockets w)\<rparr>"
| "step (Alarm env) w =
     (case schedules w of
        [] \<Rightarrow> w
      | query # rest \<Rightarrow> processArtQuery env query (w\<lparr>schedules := rest\<rparr>))"
| "step (Expire key) w =
     (case ART_CACHE w of
        None \<Rightarrow> w
      | Some kv \<Rightarrow> w\<lparr>ART_CACHE := Some (kv(key := None))\<rparr>)"

definition run :: "event list \<Rightarrow> world \<Rightarrow> world" where
  "run es w = fold step es w"

text \<open>A fresh session: no state yet, nothing scheduled, the cache (when bound) empty.\<close>

definition fresh :: "bool \<Rightarrow> world" where
  "fresh bound =
     \<lparr>state = \<lparr>currentQuery = Undefined, searchResults = None, selectedWorks = None,
                processingStage = None, error = None, lastUpdated = None\<rparr>,
      schedules = [],
      ART_CACHE = (if bound then Some Map.empty else None),
      sockets = [],
      sent = [],
      updates = [],
      ai_runs = 0,
      launches = 0\<rparr>"

section \<open>Notions used to state the properties\<close>

text \<open>Reading a decimal number back, and the index that an artwork id ends with (the
  digits after its last dash).\<close>

definition read_nat :: "string \<Rightarrow> nat" where
  "read_nat s = foldl (\<lambda>a c. 10 * a + (of_char c - 48)) 0 s"

definition index_of_id :: "string \<Rightarrow> nat" where
  "index_of_id s = read_nat (rev (takeWhile (\<lambda>c. c \<noteq> CHR ''-'') (rev s)))"

text \<open>A loop pass of \<open>fetchArtworkImages\<close> in which the browser fails or finds no image:
  an awaited call rejects (\<open>page.close\<close> included), or the callback throws, returns
  \<open>null\<close> or returns an empty address.\<close>

definition resolver_fails :: "page_visit \<Rightarrow> bool" where
  "resolver_fails v =
     (\<not> newPage_ok v \<or> \<not> goto_ok v \<or> \<not> waitForSelector_ok v \<or> \<not> evaluate_ok v \<or>
      (case first_result (document_imgs v) of
         Inl e \<Rightarrow> True
       | Inr None \<Rightarrow> True
       | Inr (Some url) \<Rightarrow> url = []) \<or>
      \<not> close_ok v)"

text \<open>An artwork whose title \<open>encodeURIComponent\<close> accepts, and what a loop pass appends
  for an artwork (nothing when the pass throws).\<close>

definition encodable :: "ArtworkInfo \<Rightarrow> bool" where
  "encodable artwork = (\<not> lone_surrogate (to_str (title artwork)))"

definition appended :: "page_visit \<Rightarrow> ArtworkInfo \<Rightarrow> ArtworkWithImage list" where
  "appended v artwork = (case fetch_one v artwork [] of Inl e \<Rightarrow> [] | Inr pushed \<Rightarrow> pushed)"

subsection \<open>A sample session\<close>

text \<open>Two works come back from the research completion; the browser finds an image for
  the first and cannot load the search page for the second; the first annotation parses
  and the second completion fails. \<open>listing\<close> is the array in the research reply, and
  \<open>supper\<close> and \<open>sacrament\<close> are what \<open>JSON.parse\<close> reads from it; \<open>annotation_text\<close> is
  the object in the first annotation reply, and \<open>commentary\<close> what \<open>JSON.parse\<close> reads
  from it.\<close>

definition listing :: string where
  "listing =
     ''[{\"title\": \"The Last Supper\", \"artist\": \"Leonardo da Vinci\", \"year\": 1498, '' @
     ''\"period\": \"Renaissance\", \"location\": \"Santa Maria delle Grazie, Milan\"}, '' @
     ''{\"title\": \"The Sacrament of the Last Supper\", \"artist\": \"Salvador Dali\", '' @
     ''\"year\": 1955}]''"

definition annotation_text :: string where
  "annotation_text =
     ''{\"historicalContext\": \"Painted for the refectory of a Milanese convent.\", '' @
     ''\"artisticStyle\": \"High Renaissance, one-point perspective.\", '' @
     ''\"interestingDetails\": [\"The spilled salt\"], \"uniqueInterpretation\": \"\"}''"

definition supper :: parsed_artwork where
  "supper =
     \<lparr>raw_title = Str ''The Last Supper'', raw_artist = Str ''Leonardo da Vinci'',
      raw_year = Some 1498, raw_period = Some ''Renaissance'',
      raw_location = Some ''Santa Maria delle Grazie, Milan''\<rparr>"

definition sacrament :: parsed_artwork where
  "sacrament =
     \<lparr>raw_title = Str ''The Sacrament of the Last Supper'', raw_artist = Str ''Salvador Dali'',
      raw_year = Some 1955, raw_period = None, raw_location = None\<rparr>"

definition logo :: img where
  "logo = \<lparr>src = ''https://www.example.org/logo.png'', width = 272, height = 192\<rparr>"

definition fresco :: img where
  "fresco = \<lparr>src = ''https://images.example.org/last-supper.jpg'', width = 640, height = 360\<rparr>"

definition found_visit :: page_visit where
  "found_visit =
     \<lparr>newPage_ok = True, goto_ok = True, waitForSelector_ok = True, evaluate_ok = True,
      document_imgs = [logo, fresco], close_ok = True\<rparr>"

definition lost_visit :: page_visit where
  "lost_visit =
     \<lparr>newPage_ok = True, goto_ok = False, waitForSelector_ok = True, evaluate_ok = True,
      document_imgs = [], close_ok = True\<rparr>"

definition commentary :: parsed_annotations where
  "commentary =
     \<lparr>raw_historicalContext = Some ''Painted for the refectory of a Milanese convent.'',
      raw_artisticStyle = Some ''High Renaissance, one-point perspective.'',
      raw_biblicalNarrative = None,
      raw_interestingDetails = Some [''The spilled salt''],
      raw_uniqueInterpretation = Some ''''\<rparr>"

definition gallery :: run_env where
  "gallery =
     \<lparr>ai_research = Some (''Here is the list: '' @ listing @ '' I hope it helps.''),
      JSON_parse_artworks =
        (\<lambda>text. if text = listing then Some (Some supper, [Some sacrament]) else None),
      Date_now = (\<lambda>index. 1700000000000 + index),
      launch = None,
      visits = (\<lambda>n. if n = 0 then found_visit else lost_visit),
      browser_close = None,
      ai_annotate = (\<lambda>n. if n = 0 then Some (''Annotations: '' @ annotation_text) else None),
      JSON_parse_annotations =
        (\<lambda>text. if text = annotation_text then Some commentary else None),
      cache_put_ok = True,
      new_Date = (\<lambda>st. 1700000000500)\<rparr>"

text \<open>The two candidates of the sample run, as \<open>researchArtworks\<close> returns them.\<close>

definition candidates :: "ArtworkInfo list" where
  "candidates = [with_id 1700000000000 0 supper, with_id 1700000000001 1 sacrament]"

text \<open>The sample candidates after the image stage.\<close>

definition pictures :: "ArtworkWithImage list" where
  "pictures =
     [with_image (with_id 1700000000000 0 supper) ''https://images.example.org/last-supper.jpg'',
      with_image (with_id 1700000000001 1 sacrament)
        ''https://placekitten.com/600/400?text=The%20Sacrament%20of%20the%20Last%20Supper'']"


definition stuck_visit :: page_visit where
  "stuck_visit = found_visit\<lparr>close_ok := False\<rparr>"

definition sticky :: run_env where
  "sticky = gallery\<lparr>visits := (\<lambda>n. stuck_visit)\<rparr>"


text \<open>One more variant: the title of the first work ends with the first half of a
  surrogate pair (in the reply the title ends with the escape \<^verbatim>\<open>\ud83d\<close> on its own,
  which \<open>JSON.parse\<close> reads as that code unit), and no page can be opened for it; the
  second work is as before, and its search page shows an image.\<close>

definition torn_listing :: string where
  "torn_listing =
     ''[{\"title\": \"The Last Supper '' @ [CHR 0x5C] @ ''ud83d\", '' @
     ''\"artist\": \"Leonardo da Vinci\", \"year\": 1498, '' @
     ''\"period\": \"Renaissance\", \"location\": \"Santa Maria delle Grazie, Milan\"}, '' @
     ''{\"title\": \"The Sacrament of the Last Supper\", \"artist\": \"Salvador Dali\", '' @
     ''\"year\": 1955}]''"

definition torn :: parsed_artwork where
  "torn = supper\<lparr>raw_title := Str (''The Last Supper '' @ [CHR 0xED, CHR 0xA0, CHR 0xBD])\<rparr>"

definition no_page :: page_visit where
  "no_page = found_visit\<lparr>newPage_ok := False\<rparr>"

definition tattered :: run_env where
  "tattered =
     gallery\<lparr>ai_research := Some (''Here is the list: '' @ torn_listing @ '' I hope it helps.''),
             JSON_parse_artworks :=
               (\<lambda>text. if text = torn_listing then Some (Some torn, [Some sacrament]) else None),
             visits := (\<lambda>n. if n = 0 then no_page else found_visit)\<rparr>"

definition tattered_candidates :: "ArtworkInfo list" where
  "tattered_candidates = [with_id 1700000000000 0 torn, with_id 1700000000001 1 sacrament]"

subsection \<open>What a run computes and writes\<close>

text \<open>The outcome of the three stages of a run as a function of the environment alone: the
  exception that reaches the \<open>catch\<close> block of \<open>processArtQuery\<close>, or the annotated works.\<close>

definition image_stage :: "run_env \<Rightarrow> ArtworkInfo list \<Rightarrow> exn + ArtworkWithImage list" where
  "image_stage env artworks =
     (case launch env of
        Some e \<Rightarrow> Inl e
      | None \<Rightarrow>
          (case browser_close env of
             Some e \<Rightarrow> Inl e
           | None \<Rightarrow> fetch_loop (visits env) 0 artworks []))"

definition run_result :: "run_env \<Rightarrow> exn + AnnotatedArtwork list" where
  "run_result env =
     (case parse_artworks env of
        None \<Rightarrow> Inl research_failed
      | Some artworks \<Rightarrow>
          (case image_stage env artworks of
             Inl e \<Rightarrow> Inl e
           | Inr artworksWithImages \<Rightarrow> Inr (annotate_loop env 0 artworksWithImages [])))"

text \<open>The states a run passes to \<open>setState\<close>, in order, when it starts in state \<open>s\<close>.\<close>

definition at_stage :: "run_env \<Rightarrow> stage \<Rightarrow> ArtAgentState \<Rightarrow> ArtAgentState" where
  "at_stage env st s = s\<lparr>processingStage := Some st, lastUpdated := Some (new_Date env st)\<rparr>"

definition run_states :: "run_env \<Rightarrow> ArtAgentState \<Rightarrow> ArtAgentState list" where
  "run_states env s =
     (let r = at_stage env Researching s; f = at_stage env Fetching r; a = at_stage env Annotating f
      in case parse_artworks env of
           None \<Rightarrow> [r, at_stage env Error (r\<lparr>error := Some (message_of research_failed)\<rparr>)]
         | Some artworks \<Rightarrow>
             (case run_result env of
                Inl e \<Rightarrow> [r, f, at_stage env Error (f\<lparr>error := Some (message_of e)\<rparr>)]
              | Inr works \<Rightarrow> [r, f, a, at_stage env Complete (a\<lparr>selectedWorks := Some works\<rparr>)]))"

subsection \<open>Sessions\<close>

text \<open>The stages a session has gone through, one per call of \<open>setState\<close>, and the stages
  that one event adds.\<close>

definition trace :: "world \<Rightarrow> stage list" where
  "trace w = map stage_or_idle (updates w)"












subsection \<open>Sample sessions\<close>

definition ask :: "string \<Rightarrow> event" where
  "ask query =
     Http \<lparr>cache_get_ok = True, clock = 1700000000000\<rparr>
          \<lparr>pathname = ''/agents/christian-art-agent/explorer/query'', method' = ''POST'',
           body = Json (Some query)\<rparr>"


text \<open>One query and its run; two queries submitted before either task runs, the first
  run failing; a query answered once and then submitted again over a socket.\<close>

definition visit :: "event list" where
  "visit = [ask ''The Last Supper'', Alarm gallery]"


definition pushed_again :: "event list" where
  "pushed_again = visit @ [Connect 1, Message 1 1700000060000 (Query (Str ''The Last Supper''))]"

text \<open>The works the sample run selects; a request for the results and its environment.\<close>

definition exhibits :: "AnnotatedArtwork list" where
  "exhibits = annotate_loop gallery 0 pictures []"


definition poll :: request_env where
  "poll = \<lparr>cache_get_ok = True, clock = 1700000030000\<rparr>"

section \<open>Properties\<close>

subsection \<open>What the functions change\<close>

lemma state_setState [simp]: "state (setState s w) = s"
  by (simp add: setState_def onStateUpdate_def)

lemma updates_setState [simp]: "updates (setState s w) = updates w @ [s]"
  by (simp add: setState_def onStateUpdate_def)

lemma schedules_setState [simp]: "schedules (setState s w) = schedules w"
  by (simp add: setState_def onStateUpdate_def)

lemma cache_setState [simp]: "ART_CACHE (setState s w) = ART_CACHE w"
  by (simp add: setState_def onStateUpdate_def)

lemma sockets_setState [simp]: "sockets (setState s w) = sockets w"
  by (simp add: setState_def onStateUpdate_def)

lemma counters_setState [simp]:
  "ai_runs (setState s w) = ai_runs w" "launches (setState s w) = launches w"
  by (simp_all add: setState_def onStateUpdate_def)

lemma cache_results_frame [simp]:
  "state (cache_results env q ws w) = state w"
  "updates (cache_results env q ws w) = updates w"
  "schedules (cache_results env q ws w) = schedules w"
  "sockets (cache_results env q ws w) = sockets w"
  "ai_runs (cache_results env q ws w) = ai_runs w"
  "launches (cache_results env q ws w) = launches w"
  by (simp_all add: cache_results_def split: option.splits)

lemmas pipeline_defs =
  processArtQuery_def researchArtworks_def fetchArtworkImages_def annotateArtworks_def
  failed_def Let_def

lemma updates_processArtQuery:
  "updates (processArtQuery env q w) = updates w @ run_states env (state w)"
  by (simp add: pipeline_defs run_states_def run_result_def image_stage_def at_stage_def
      split: option.splits sum.splits)

lemma state_processArtQuery:
  "state (processArtQuery env q w) = last (run_states env (state w))"
  by (simp add: pipeline_defs run_states_def run_result_def image_stage_def at_stage_def
      split: option.splits sum.splits)

lemma schedules_processArtQuery [simp]:
  "schedules (processArtQuery env q w) = schedules w"
  by (simp add: pipeline_defs split: option.splits sum.splits)

lemma sockets_processArtQuery [simp]:
  "sockets (processArtQuery env q w) = sockets w"
  by (simp add: pipeline_defs split: option.splits sum.splits)

lemma cache_processArtQuery:
  "ART_CACHE (processArtQuery env q w) =
     (case ART_CACHE w of
        None \<Rightarrow> None
      | Some kv \<Rightarrow>
          (case run_result env of
             Inl e \<Rightarrow> Some kv
           | Inr works \<Rightarrow>
               if 0 < length works \<and> cache_put_ok env then Some (kv(cache_key q \<mapsto> works))
               else Some kv))"
  by (simp add: pipeline_defs run_result_def image_stage_def cache_results_def
      split: option.splits sum.splits)

subsection \<open>Artwork ids\<close>

lemma of_char_digit_char: "d < 10 \<Longrightarrow> of_char (digit_char d) = 48 + d"
  by (simp add: digit_char_def)

lemma digit_char_not_dash: "d < 10 \<Longrightarrow> digit_char d \<noteq> CHR ''-''"
proof
  assume d: "d < 10" and "digit_char d = CHR ''-''"
  then have "(of_char (digit_char d) :: nat) = of_char (CHR ''-'')" by simp
  with d show False by (simp add: of_char_digit_char)
qed

lemma show_nat_no_dash: "CHR ''-'' \<notin> set (show_nat n)"
proof (induction n rule: show_nat.induct)
  case (1 n)
  show ?case
  proof (cases "n < 10")
    case True
    then show ?thesis using digit_char_not_dash [of n] by (simp add: show_nat.simps [of n])
  next
    case False
    have "n mod 10 < 10" by simp
    then have "digit_char (n mod 10) \<noteq> CHR ''-''" by (rule digit_char_not_dash)
    with False 1 show ?thesis by (auto simp: show_nat.simps [of n])
  qed
qed

lemma read_nat_snoc: "read_nat (s @ [c]) = 10 * read_nat s + (of_char c - 48)"
  by (simp add: read_nat_def)

lemma read_show_nat: "read_nat (show_nat n) = n"
proof (induction n rule: show_nat.induct)
  case (1 n)
  show ?case
  proof (cases "n < 10")
    case True
    then show ?thesis
      by (simp add: show_nat.simps [of n] read_nat_def of_char_digit_char)
  next
    case False
    have "n mod 10 < 10" by simp
    then have "of_char (digit_char (n mod 10)) = 48 + n mod 10" by (rule of_char_digit_char)
    with False 1 show ?thesis
      by (simp add: show_nat.simps [of n] read_nat_snoc)
  qed
qed

lemma index_of_artwork_id: "index_of_id (artwork_id t i) = i"
proof -
  have "takeWhile (\<lambda>c. c \<noteq> CHR ''-'') (rev (show_nat i) @ CHR ''-'' # rest) = rev (show_nat i)" for rest
    using show_nat_no_dash [of i] by (intro takeWhile_tail [THEN trans]) auto
  then show ?thesis
    by (simp add: index_of_id_def artwork_id_def read_show_nat)
qed

text \<open>The ids that \<open>map\<close> hands out end with the positions \<open>k\<close>, \<open>k + 1\<close>, ...; an id with
  a later position differs from the one made here whatever the clock says.\<close>

lemma map_artworks_distinct:
  "map_artworks now k xs = Some ys \<Longrightarrow>
     (\<forall>a \<in> set ys. k \<le> index_of_id (id' a)) \<and> distinct (map id' ys)"
proof (induction now k xs arbitrary: ys rule: map_artworks.induct)
  case (1 now index)
  then show ?case by simp
next
  case (2 now index rest)
  then show ?case by simp
next
  case (3 now index artwork rest)
  from "3.prems" obtain mapped where
    m: "map_artworks now (Suc index) rest = Some mapped" and
    ys: "ys = with_id (now index) index artwork # mapped"
    by (auto split: option.splits)
  from "3.IH" [OF m] have
    later: "\<forall>a \<in> set mapped. Suc index \<le> index_of_id (id' a)" and d: "distinct (map id' mapped)"
    by simp_all
  have here: "index_of_id (id' (with_id (now index) index artwork)) = index"
    by (simp add: with_id_def index_of_artwork_id)
  have "id' (with_id (now index) index artwork) \<notin> id' ` set mapped"
  proof
    assume "id' (with_id (now index) index artwork) \<in> id' ` set mapped"
    then obtain a where a: "a \<in> set mapped" and "id' a = id' (with_id (now index) index artwork)"
      by auto
    then have "index_of_id (id' a) = index" using here by simp
    with later a show False by fastforce
  qed
  with later d here show ?case by (auto simp: ys intro: Suc_leD)
qed

text \<open>
  Claim C10. The ids that one call of \<open>researchArtworks\<close> gives to the candidates it
  returns are pairwise distinct: each id ends with the candidate's position, after the
  clock value read for that candidate.
\<close>

theorem research_ids_distinct:
  "fst (researchArtworks env narrative w) = Inr artworks \<Longrightarrow> distinct (map id' artworks)"
  by (auto simp: researchArtworks_def parse_artworks_def Let_def
           split: option.splits prod.splits dest: map_artworks_distinct)

subsection \<open>The image stage\<close>

lemma lone_surrogate_append_left: "lone_surrogate s \<Longrightarrow> lone_surrogate (s @ t)"
  by (induction s rule: lone_surrogate.induct) auto

lemma lone_surrogate_Cons: "lone_surrogate t \<Longrightarrow> lone_surrogate (a # t)"
  by (cases t) auto

lemma lone_surrogate_append_right: "lone_surrogate t \<Longrightarrow> lone_surrogate (s @ t)"
  by (induction s) (auto intro: lone_surrogate_Cons)

text \<open>An artwork whose title holds a lone surrogate: both calls of \<open>encodeURIComponent\<close>
  throw, so the \<open>try\<close> block throws and then the \<open>catch\<close> block does, whatever the browser
  answers.\<close>

lemma lone_surrogate_within: "lone_surrogate t \<Longrightarrow> lone_surrogate (s @ m @ t @ r)"
  by (intro lone_surrogate_append_right lone_surrogate_append_left)

lemma search_page_torn: "\<not> encodable a \<Longrightarrow> search_page a = Inl uri_malformed"
  by (simp add: encodable_def search_page_def searchQuery_def encodeURIComponent_def
      lone_surrogate_within del: append.simps)

lemma placeholder_torn: "\<not> encodable a \<Longrightarrow> placeholder a = Inl uri_malformed"
  by (simp add: encodable_def placeholder_def encodeURIComponent_def)

lemma try_block_torn: "\<not> encodable a \<Longrightarrow> try_block v a acc = Threw acc"
  by (simp add: try_block_def search_page_torn)

lemma fetch_one_torn: "\<not> encodable a \<Longrightarrow> fetch_one v a acc = Inl uri_malformed"
  by (simp add: fetch_one_def try_block_torn push_placeholder_def placeholder_torn)

text \<open>Every other artwork: the pass appends entries for the artwork, at least one, each
  with an address that is not empty; when the browser fails or finds no image, the last
  of them has the placeholder address.\<close>

lemma placeholder_encodable:
  "encodable a \<Longrightarrow> \<exists>t. placeholder a = Inr (''https://placekitten.com/600/400?text='' @ t)"
  by (simp add: encodable_def placeholder_def encodeURIComponent_def)

lemma fetch_one_encodable:
  assumes "encodable a"
  shows "fetch_one v a acc = Inr (acc @ appended v a)"
proof -
  from placeholder_encodable [OF assms] obtain t where
    "placeholder a = Inr (''https://placekitten.com/600/400?text='' @ t)" ..
  then show ?thesis
    by (auto simp: appended_def fetch_one_def try_block_def push_found_def push_placeholder_def
        split: sum.splits option.splits)
qed

lemma appended_nonempty:
  assumes "encodable a"
  shows "appended v a \<noteq> []"
proof -
  from placeholder_encodable [OF assms] obtain t where
    "placeholder a = Inr (''https://placekitten.com/600/400?text='' @ t)" ..
  then show ?thesis
    by (auto simp: appended_def fetch_one_def try_block_def push_found_def push_placeholder_def
        split: sum.splits option.splits)
qed

lemma appended_truncate: "x \<in> set (appended v a) \<Longrightarrow> ArtworkInfo.truncate x = a"
  by (auto simp: appended_def fetch_one_def try_block_def push_found_def push_placeholder_def
      with_image_def ArtworkInfo.defs ArtworkWithImage.defs
      split: sum.splits option.splits if_splits)


lemma imageUrl_with_image [simp]: "imageUrl (with_image a url) = url"
  by (simp add: with_image_def ArtworkInfo.defs ArtworkWithImage.defs)


lemma appended_fails:
  assumes "encodable a" and "resolver_fails v"
  shows "\<exists>url. placeholder a = Inr url \<and> url \<noteq> [] \<and> last (appended v a) = with_image a url"
proof -
  from placeholder_encodable [OF assms(1)] obtain t where
    "placeholder a = Inr (''https://placekitten.com/600/400?text='' @ t)" ..
  with assms(2) show ?thesis
    by (auto simp: resolver_fails_def appended_def fetch_one_def try_block_def push_found_def
        push_placeholder_def split: sum.splits option.splits)
qed

lemma fetch_loop_encodable:
  "\<forall>a \<in> set as. encodable a \<Longrightarrow>
     fetch_loop vs n as acc =
       Inr (acc @ concat (map (\<lambda>k. appended (vs (n + k)) (as ! k)) [0 ..< length as]))"
proof (induction as arbitrary: n acc)
  case Nil
  show ?case by simp
next
  case (Cons a as)
  have "map (\<lambda>k. appended (vs (n + k)) ((a # as) ! k)) [0 ..< length (a # as)] =
        appended (vs n) a # map (\<lambda>k. appended (vs (Suc n + k)) (as ! k)) [0 ..< length as]"
    by (simp add: upt_conv_Cons map_Suc_upt [symmetric] del: upt_Suc)
  moreover from Cons.prems have "fetch_one (vs n) a acc = Inr (acc @ appended (vs n) a)"
    by (simp add: fetch_one_encodable)
  moreover from Cons.prems have "fetch_loop vs (Suc n) as (acc @ appended (vs n) a) =
      Inr ((acc @ appended (vs n) a) @
           concat (map (\<lambda>k. appended (vs (Suc n + k)) (as ! k)) [0 ..< length as]))"
    by (intro Cons.IH) simp
  ultimately show ?case by (simp del: upt_Suc)
qed

text \<open>A pass that throws leaves the loop: the artworks after it are not visited.\<close>

lemma fetch_loop_torn:
  "\<forall>a \<in> set before. encodable a \<Longrightarrow> \<not> encodable a \<Longrightarrow>
     fetch_loop vs n (before @ a # rest) acc = Inl uri_malformed"
proof (induction before arbitrary: n acc)
  case Nil
  then show ?case by (simp add: fetch_one_torn)
next
  case (Cons b before)
  then show ?case by (simp add: fetch_one_encodable)
qed

text \<open>
  The image stage on artworks whose titles \<open>encodeURIComponent\<close> accepts. The loop returns
  the concatenation of what each pass appends, and a pass appends entries for its own
  artwork only, whatever happens in the other passes: an artwork whose pass fails or
  finds no image is in the output with the placeholder address, which is not empty, and
  every artwork of the input has an entry.
\<close>

lemma image_failure_absorbed:
  assumes "\<forall>a \<in> set artworks. encodable a"
    and "n < length artworks" and "resolver_fails (vs n)"
  shows "\<exists>out url.
           fetch_loop vs 0 artworks [] = Inr out
           \<and> out = concat (map (\<lambda>k. appended (vs k) (artworks ! k)) [0 ..< length artworks])
           \<and> placeholder (artworks ! n) = Inr url \<and> url \<noteq> []
           \<and> with_image (artworks ! n) url \<in> set out
           \<and> (\<forall>k < length artworks. \<exists>x \<in> set out. ArtworkInfo.truncate x = artworks ! k)"
proof -
  let ?out = "concat (map (\<lambda>k. appended (vs k) (artworks ! k)) [0 ..< length artworks])"
  have r: "fetch_loop vs 0 artworks [] = Inr ?out"
    using fetch_loop_encodable [OF assms(1), of vs 0 "[]"] by simp
  have part: "set (appended (vs k) (artworks ! k)) \<subseteq> set ?out" if "k < length artworks" for k
    using that by auto
  have enc: "encodable (artworks ! k)" if "k < length artworks" for k
    using assms(1) that by simp
  from appended_fails [OF enc [OF assms(2)] assms(3)] obtain url where
    url: "placeholder (artworks ! n) = Inr url" "url \<noteq> []"
      "last (appended (vs n) (artworks ! n)) = with_image (artworks ! n) url"
    by blast
  have "last (appended (vs n) (artworks ! n)) \<in> set (appended (vs n) (artworks ! n))"
    using appended_nonempty [OF enc [OF assms(2)]] by simp
  with url(3) part [OF assms(2)] have p: "with_image (artworks ! n) url \<in> set ?out"
    by auto
  have others: "\<exists>x \<in> set ?out. ArtworkInfo.truncate x = artworks ! k"
    if k: "k < length artworks" for k
  proof -
    obtain x where x: "x \<in> set (appended (vs k) (artworks ! k))"
      using appended_nonempty [OF enc [OF k], of "vs k"] by (meson last_in_set)
    then have "ArtworkInfo.truncate x = artworks ! k" by (rule appended_truncate)
    with x part [OF k] show ?thesis by blast
  qed
  from r url(1,2) p others show ?thesis by blast
qed

subsection \<open>The annotation stage\<close>

lemma annotate_one_append: "annotate_one env n a acc = acc @ annotate_one env n a []"
  by (simp add: annotate_one_def split: option.splits)

lemma annotate_loop_append: "annotate_loop env n as acc = acc @ annotate_loop env n as []"
proof (induction as arbitrary: n acc)
  case Nil
  show ?case by simp
next
  case (Cons a as)
  show ?case
    using Cons [of "Suc n" "annotate_one env n a acc"] Cons [of "Suc n" "annotate_one env n a []"]
      annotate_one_append [of env n a acc]
    by simp
qed

lemma length_annotate_loop: "length (annotate_loop env n as acc) = length acc + length as"
  by (induction as arbitrary: n acc) (auto simp: annotate_one_def split: option.splits)

lemma annotate_one_single:
  "annotate_one env n a [] =
     [with_annotations a
        (case extract_annotations env n of
           Some r \<Rightarrow> read_annotations r
         | None \<Rightarrow> default_annotations)]"
  by (simp add: annotate_one_def split: option.splits)

lemma annotate_loop_Cons:
  "annotate_loop env n (a # as) [] = annotate_one env n a [] @ annotate_loop env (Suc n) as []"
  using annotate_loop_append [of env "Suc n" as "annotate_one env n a []"] by simp



lemma extract_annotations_None_iff:
  "extract_annotations env n = None \<longleftrightarrow>
     ai_annotate env n = None
     \<or> (\<exists>r. ai_annotate env n = Some r \<and> match_object r = None)
     \<or> (\<exists>r m. ai_annotate env n = Some r \<and> match_object r = Some m
               \<and> JSON_parse_annotations env m = None)"
  by (auto simp: extract_annotations_def split: option.splits)


lemma annotate_loop_keeps:
  "map ArtworkWithImage.truncate (annotate_loop env n as []) = as"
proof (induction as arbitrary: n)
  case Nil
  show ?case by simp
next
  case (Cons a as)
  from Cons [of "Suc n"] show ?case
    by (simp only: annotate_loop_Cons annotate_one_single)
       (simp add: with_annotations_def ArtworkWithImage.defs AnnotatedArtwork.defs)
qed

subsection \<open>How a run ends\<close>

lemma fst_researchArtworks:
  "fst (researchArtworks env q w) =
     (case parse_artworks env of None \<Rightarrow> Inl research_failed | Some artworks \<Rightarrow> Inr artworks)"
  by (simp add: researchArtworks_def Let_def split: option.splits)

lemma fst_fetchArtworkImages: "fst (fetchArtworkImages env artworks w) = image_stage env artworks"
  by (simp add: fetchArtworkImages_def image_stage_def Let_def split: option.splits)








text \<open>What a run leaves in the stage and in the fields \<open>error\<close> and \<open>selectedWorks\<close>.\<close>

lemma run_leaves:
  "processingStage (state (processArtQuery env query w)) =
     (case run_result env of Inl e \<Rightarrow> Some Error | Inr works \<Rightarrow> Some Complete)"
  "error (state (processArtQuery env query w)) =
     (case run_result env of Inl e \<Rightarrow> Some (message_of e) | Inr works \<Rightarrow> error (state w))"
  "selectedWorks (state (processArtQuery env query w)) =
     (case run_result env of Inl e \<Rightarrow> selectedWorks (state w) | Inr works \<Rightarrow> Some works)"
  by (simp_all add: state_processArtQuery run_states_def run_result_def at_stage_def Let_def
      split: option.splits sum.splits)


subsection \<open>The number and order of the selected works\<close>

lemma fetch_one_closed:
  "close_ok v \<Longrightarrow> fetch_one v a acc = Inr pushed \<Longrightarrow>
     map ArtworkInfo.truncate pushed = map ArtworkInfo.truncate acc @ [a]"
  by (auto simp: fetch_one_def try_block_def push_found_def push_placeholder_def
      with_image_def ArtworkInfo.defs ArtworkWithImage.defs
      split: sum.splits option.splits if_splits)

text \<open>When every page closes, the image stage keeps the candidates, one entry each, in
  their order; the annotation stage always does.\<close>

lemma fetch_loop_closed:
  "fetch_loop vs n as acc = Inr out \<Longrightarrow> (\<forall>k < length as. close_ok (vs (n + k))) \<Longrightarrow>
     map ArtworkInfo.truncate out = map ArtworkInfo.truncate acc @ as"
proof (induction as arbitrary: n acc)
  case Nil
  then show ?case by auto
next
  case (Cons a as)
  from Cons.prems(1) obtain pushed where
    pushed: "fetch_one (vs n) a acc = Inr pushed" "fetch_loop vs (Suc n) as pushed = Inr out"
    by (auto split: sum.splits)
  from Cons.prems(2) have here: "close_ok (vs n)" by fastforce
  from Cons.prems(2) have "\<forall>k < length as. close_ok (vs (Suc n + k))" by fastforce
  from Cons.IH [OF pushed(2) this] fetch_one_closed [OF here pushed(1)] show ?case by simp
qed

subsection \<open>Requests, sockets and the other events\<close>


lemma send_frame [simp]:
  "state (send c m w) = state w" "updates (send c m w) = updates w"
  "schedules (send c m w) = schedules w" "ART_CACHE (send c m w) = ART_CACHE w"
  "ai_runs (send c m w) = ai_runs w" "launches (send c m w) = launches w"
  by (simp_all add: send_def)

lemma schedule_frame [simp]:
  "state (schedule q w) = state w" "updates (schedule q w) = updates w"
  "schedules (schedule q w) = schedules w @ [q]" "ART_CACHE (schedule q w) = ART_CACHE w"
  "ai_runs (schedule q w) = ai_runs w" "launches (schedule q w) = launches w"
  by (simp_all add: schedule_def)

lemma onConnect_frame [simp]:
  "state (onConnect c w) = state w" "updates (onConnect c w) = updates w"
  "schedules (onConnect c w) = schedules w" "ART_CACHE (onConnect c w) = ART_CACHE w"
  "ai_runs (onConnect c w) = ai_runs w" "launches (onConnect c w) = launches w"
  by (simp_all add: onConnect_def)



lemma accepted_request:
  "endsWith (pathname req) ''/query'' \<Longrightarrow> method' req = ''POST'' \<Longrightarrow>
   body req = Json (Some query) \<Longrightarrow> query \<noteq> [] \<Longrightarrow>
     onRequest env req w = submit env query w"
  by (simp add: onRequest_def)


lemma submit_frame [simp]:
  "ART_CACHE (snd (submit env query w)) = ART_CACHE w"
  "ai_runs (snd (submit env query w)) = ai_runs w"
  "launches (snd (submit env query w)) = launches w"
  by (simp_all add: submit_def split: option.splits)

text \<open>A cache hit answers the submission at once: the state is complete with the cached
  works, nothing is scheduled, and neither \<open>ai.run\<close> nor \<open>puppeteer.launch\<close> is called.\<close>

lemma cache_hit_skips_pipeline:
  assumes "cached env query w = Some works"
  shows "json (fst (submit env query w)) = Retrieved_from_cache"
    and "processingStage (state (snd (submit env query w))) = Some Complete"
    and "selectedWorks (state (snd (submit env query w))) = Some works"
    and "currentQuery (state (snd (submit env query w))) = Str query"
    and "updates (snd (submit env query w)) = updates w @ [state (snd (submit env query w))]"
    and "schedules (snd (submit env query w)) = schedules w"
    and "ai_runs (snd (submit env query w)) = ai_runs w"
    and "launches (snd (submit env query w)) = launches w"
  using assms by (simp_all add: submit_def)

subsection \<open>The states of a run\<close>


lemma run_states_nonempty [simp]: "run_states env s \<noteq> []"
  by (simp add: run_states_def Let_def split: option.splits sum.splits)





subsection \<open>Orderly sessions\<close>








subsection \<open>What every session keeps\<close>




subsection \<open>Results\<close>












subsection \<open>What one event writes\<close>




subsection \<open>The claims about sessions\<close>





subsection \<open>Calls a run makes\<close>

lemma ai_runs_processArtQuery:
  "ai_runs (processArtQuery env q w) =
     ai_runs w + 1 +
     (case run_result env of Inl e \<Rightarrow> 0 | Inr works \<Rightarrow> length works)"
  by (simp add: pipeline_defs run_result_def image_stage_def length_annotate_loop
      split: option.splits sum.splits)

lemma launches_processArtQuery:
  "launches (processArtQuery env q w) =
     launches w + (case parse_artworks env of None \<Rightarrow> 0 | Some artworks \<Rightarrow> 1)"
  by (simp add: pipeline_defs split: option.splits sum.splits)

section \<open>The sample sessions, evaluated\<close>

subsection \<open>The sample run and its variants\<close>

lemma gallery_research: "parse_artworks gallery = Some candidates"
  by code_simp

lemma gallery_browser: "launch gallery = None" "browser_close gallery = None" "cache_put_ok gallery"
  by (simp_all add: gallery_def)


lemma gallery_pictures: "fetch_loop (visits gallery) 0 candidates [] = Inr pictures"
  by code_simp


lemma length_exhibits: "length exhibits = 2"
  by (simp only: exhibits_def length_annotate_loop) (simp add: pictures_def)

lemma gallery_result: "run_result gallery = Inr exhibits"
  by (simp add: run_result_def image_stage_def gallery_research gallery_browser gallery_pictures
      exhibits_def)







lemma sticky_research: "parse_artworks sticky = Some candidates"
  by code_simp

lemma sticky_browser: "launch sticky = None" "browser_close sticky = None"
  by (simp_all add: sticky_def gallery_def)

lemma sticky_pictures:
  "\<exists>out. fetch_loop (visits sticky) 0 candidates [] = Inr out
     \<and> map id' out =
         [''artwork-1700000000000-0'', ''artwork-1700000000000-0'',
          ''artwork-1700000000001-1'', ''artwork-1700000000001-1'']
     \<and> map imageUrl out =
         [''https://images.example.org/last-supper.jpg'',
          ''https://placekitten.com/600/400?text=The%20Last%20Supper'',
          ''https://images.example.org/last-supper.jpg'',
          ''https://placekitten.com/600/400?text=The%20Sacrament%20of%20the%20Last%20Supper'']"
proof -
  have "(case fetch_loop (visits sticky) 0 candidates [] of
           Inl e \<Rightarrow> None | Inr out \<Rightarrow> Some (map id' out, map imageUrl out)) =
        Some ([''artwork-1700000000000-0'', ''artwork-1700000000000-0'',
               ''artwork-1700000000001-1'', ''artwork-1700000000001-1''],
              [''https://images.example.org/last-supper.jpg'',
               ''https://placekitten.com/600/400?text=The%20Last%20Supper'',
               ''https://images.example.org/last-supper.jpg'',
               ''https://placekitten.com/600/400?text=The%20Sacrament%20of%20the%20Last%20Supper''])"
    by code_simp
  then show ?thesis by (auto split: sum.splits)
qed

lemma annotate_loop_fields:
  "map id' (annotate_loop env n as []) = map id' as"
  "map imageUrl (annotate_loop env n as []) = map imageUrl as"
proof -
  have "map id' (map ArtworkWithImage.truncate (annotate_loop env n as [])) = map id' as"
    and "map imageUrl (map ArtworkWithImage.truncate (annotate_loop env n as [])) = map imageUrl as"
    by (simp_all only: annotate_loop_keeps)
  then show "map id' (annotate_loop env n as []) = map id' as"
    and "map imageUrl (annotate_loop env n as []) = map imageUrl as"
    by (simp_all add: comp_def ArtworkWithImage.defs)
qed

lemma tattered_research: "parse_artworks tattered = Some tattered_candidates"
  by code_simp

lemma tattered_browser: "launch tattered = None" "browser_close tattered = None"
  by (simp_all add: tattered_def gallery_def)

lemma tattered_title:
  "title (tattered_candidates ! 0) = Str (''The Last Supper '' @ [CHR 0xED, CHR 0xA0, CHR 0xBD])"
  "\<not> encodable (tattered_candidates ! 0)"
  "tattered_candidates = [tattered_candidates ! 0, tattered_candidates ! 1]"
  "encodable (tattered_candidates ! 1)"
  by (simp add: tattered_candidates_def with_id_def torn_def) code_simp+

lemma tattered_result: "run_result tattered = Inl uri_malformed"
proof -
  have "fetch_loop (visits tattered) 0 tattered_candidates [] = Inl uri_malformed"
    by code_simp
  then show ?thesis
    by (simp add: run_result_def image_stage_def tattered_research tattered_browser)
qed

subsection \<open>The pipeline\<close>

theorem research_ids_distinct_witness:
  "fst (researchArtworks gallery (Str ''The Last Supper'') (fresh True)) = Inr candidates
   \<and> distinct (map id' candidates)"
proof -
  have r: "fst (researchArtworks gallery (Str ''The Last Supper'') (fresh True)) = Inr candidates"
    by (simp add: fst_researchArtworks gallery_research)
  from research_ids_distinct [OF r] r show ?thesis by simp
qed




text \<open>
  Claim C2 fails on the code. In the run \<open>tattered\<close> the research stage returns two
  candidates, and the title of the first holds a lone surrogate. No page can be opened
  for it, so the \<open>try\<close> block of its loop pass throws; the \<open>catch\<close> block then builds the
  placeholder address with \<open>encodeURIComponent(artwork.title)\<close>, which throws a
  \<open>URIError\<close>. The artwork is not appended, the loop is left before the second candidate
  is visited, \<open>fetchArtworkImages\<close> throws, and the run ends in \<open>error\<close> with the message
  \<open>URI malformed\<close> and without selected works.
\<close>

theorem torn_title_ends_the_run:
  "fst (researchArtworks tattered (Str ''The Last Supper'') (fresh True)) = Inr tattered_candidates
   \<and> length tattered_candidates = 2
   \<and> title (tattered_candidates ! 0) = Str (''The Last Supper '' @ [CHR 0xED, CHR 0xA0, CHR 0xBD])
   \<and> \<not> newPage_ok (visits tattered 0)
   \<and> fetch_one (visits tattered 0) (tattered_candidates ! 0) [] = Inl (JsError ''URI malformed'')
   \<and> fst (fetchArtworkImages tattered tattered_candidates (fresh True)) = Inl (JsError ''URI malformed'')
   \<and> processingStage (state (processArtQuery tattered (Str ''The Last Supper'') (fresh True))) = Some Error
   \<and> error (state (processArtQuery tattered (Str ''The Last Supper'') (fresh True))) = Some ''URI malformed''
   \<and> selectedWorks (state (processArtQuery tattered (Str ''The Last Supper'') (fresh True))) = None"
proof -
  have "fetch_one (visits tattered 0) (tattered_candidates ! 0) [] = Inl uri_malformed"
    using tattered_title(2) by (rule fetch_one_torn)
  moreover have "image_stage tattered tattered_candidates = Inl uri_malformed"
    using tattered_result by (simp add: run_result_def tattered_research split: sum.splits)
  moreover have "\<not> newPage_ok (visits tattered 0)"
    by (simp add: tattered_def no_page_def)
  moreover have "length tattered_candidates = 2"
    by (simp add: tattered_candidates_def)
  ultimately show ?thesis
    by (simp add: fst_researchArtworks fst_fetchArtworkImages run_leaves tattered_research
        tattered_result tattered_title(1) message_of_def uri_malformed_def fresh_def)
qed

text \<open>
  Claim C4 fails on the code. In the run \<open>sticky\<close> the research stage returns two
  candidates; each search page shows an image, so the \<open>try\<close> block pushes the artwork
  with that image, and then \<open>page.close\<close> rejects, so the \<open>catch\<close> block pushes the same
  artwork again with the placeholder. The run ends in \<open>complete\<close> with four selected
  works, each candidate twice.
\<close>

theorem close_failure_duplicates:
  "fst (researchArtworks sticky (Str ''The Last Supper'') (fresh True)) = Inr candidates
   \<and> length candidates = 2
   \<and> processingStage (state (processArtQuery sticky (Str ''The Last Supper'') (fresh True))) = Some Complete
   \<and> map_option (map id') (selectedWorks (state (processArtQuery sticky (Str ''The Last Supper'') (fresh True))))
       = Some [''artwork-1700000000000-0'', ''artwork-1700000000000-0'',
               ''artwork-1700000000001-1'', ''artwork-1700000000001-1'']
   \<and> map_option (map imageUrl) (selectedWorks (state (processArtQuery sticky (Str ''The Last Supper'') (fresh True))))
       = Some [''https://images.example.org/last-supper.jpg'',
               ''https://placekitten.com/600/400?text=The%20Last%20Supper'',
               ''https://images.example.org/last-supper.jpg'',
               ''https://placekitten.com/600/400?text=The%20Sacrament%20of%20the%20Last%20Supper'']"
proof -
  from sticky_pictures obtain out where
    out: "fetch_loop (visits sticky) 0 candidates [] = Inr out"
      "map id' out =
         [''artwork-1700000000000-0'', ''artwork-1700000000000-0'',
          ''artwork-1700000000001-1'', ''artwork-1700000000001-1'']"
      "map imageUrl out =
         [''https://images.example.org/last-supper.jpg'',
          ''https://placekitten.com/600/400?text=The%20Last%20Supper'',
          ''https://images.example.org/last-supper.jpg'',
          ''https://placekitten.com/600/400?text=The%20Sacrament%20of%20the%20Last%20Supper'']"
    by (elim exE conjE) (rule that)
  have "run_result sticky = Inr (annotate_loop sticky 0 out [])"
    by (simp add: run_result_def image_stage_def sticky_research sticky_browser out(1))
  then show ?thesis
    by (simp add: fst_researchArtworks run_leaves sticky_research annotate_loop_fields out(2,3))
       (simp add: candidates_def)
qed

subsection \<open>Sessions\<close>

lemma query_path: "endsWith ''/agents/christian-art-agent/explorer/query'' ''/query''"
  by code_simp

lemma ask_step:
  "query \<noteq> [] \<Longrightarrow>
     step (ask query) w = snd (submit \<lparr>cache_get_ok = True, clock = 1700000000000\<rparr> query w)"
  using query_path by (simp add: ask_def accepted_request)


lemma run_Cons: "run (e # es) w = run es (step e w)"
  by (simp add: run_def)

lemma run_Nil: "run [] w = w"
  by (simp add: run_def)


lemma visited:
  "processingStage (state (run visit (fresh True))) = Some Complete"
  "selectedWorks (state (run visit (fresh True))) = Some exhibits"
  "currentQuery (state (run visit (fresh True))) = Str ''The Last Supper''"
  "error (state (run visit (fresh True))) = None"
  "schedules (run visit (fresh True)) = []"
  "trace (run visit (fresh True)) = [Analyzing, Researching, Fetching, Annotating, Complete]"
  "ai_runs (run visit (fresh True)) = 3"
  "launches (run visit (fresh True)) = 1"
  by (simp_all add: visit_def run_Cons run_Nil ask_step submit_def cached_def fresh_def
      state_processArtQuery updates_processArtQuery ai_runs_processArtQuery
      launches_processArtQuery run_states_def gallery_research gallery_result
      at_stage_def trace_def stage_or_idle_def length_exhibits)

lemma visited_cache:
  "ART_CACHE (run visit (fresh True)) = Some [cache_key (Str ''The Last Supper'') \<mapsto> exhibits]"
  by (simp add: visit_def run_Cons run_Nil ask_step submit_def cached_def fresh_def
      cache_processArtQuery gallery_result gallery_browser length_exhibits)

lemma visited_cached:
  "cached poll ''The Last Supper'' (run visit (fresh True)) = Some exhibits"
  by (simp add: cached_def visited_cache poll_def)











text \<open>The session \<open>pushed_again\<close>: the query of \<open>visit\<close> is sent again, over a socket, while
  its cache entry is there.\<close>

lemma pushed:
  "processingStage (state (run pushed_again (fresh True))) = Some Analyzing"
  "selectedWorks (state (run pushed_again (fresh True))) = None"
  "schedules (run pushed_again (fresh True)) = [Str ''The Last Supper'']"
  "ai_runs (run (pushed_again @ [Alarm gallery]) (fresh True)) = 6"
  "launches (run (pushed_again @ [Alarm gallery]) (fresh True)) = 2"
  by (simp_all add: pushed_again_def visit_def run_Cons run_Nil ask_step submit_def cached_def
      fresh_def onMessage_def state_processArtQuery updates_processArtQuery
      ai_runs_processArtQuery launches_processArtQuery run_states_def gallery_research
      gallery_result at_stage_def length_exhibits)

text \<open>
  Claim C5 fails on the code for the push channel. After the session \<open>visit\<close> the cache
  holds the works of the first run under the key of the query, and the run has called
  \<open>ai.run\<close> three times and \<open>puppeteer.launch\<close> once. The same query sent over a socket does
  not look at the cache: \<open>onMessage\<close> sets the stage \<open>analyzing\<close>, drops the selected works
  and schedules a task; when that has run, \<open>ai.run\<close> has been called six times and
  \<open>puppeteer.launch\<close> twice. (The same query sent by \<open>POST /query\<close> is answered from the
  cache, see \<open>cache_hit_skips_pipeline\<close>.)
\<close>

theorem push_resubmission_runs_again:
  "cached poll ''The Last Supper'' (run visit (fresh True)) = Some exhibits
   \<and> selectedWorks (state (run visit (fresh True))) = Some exhibits
   \<and> processingStage (state (run visit (fresh True))) = Some Complete
   \<and> ai_runs (run visit (fresh True)) = 3 \<and> launches (run visit (fresh True)) = 1
   \<and> pushed_again = visit @ [Connect 1, Message 1 1700000060000 (Query (Str ''The Last Supper''))]
   \<and> processingStage (state (run pushed_again (fresh True))) = Some Analyzing
   \<and> selectedWorks (state (run pushed_again (fresh True))) = None
   \<and> schedules (run pushed_again (fresh True)) = [Str ''The Last Supper'']
   \<and> ai_runs (run (pushed_again @ [Alarm gallery]) (fresh True)) = 6
   \<and> launches (run (pushed_again @ [Alarm gallery]) (fresh True)) = 2"
  by (simp add: visited visited_cached pushed) (simp add: pushed_again_def)

end
